theory Spec2Isabelle
  imports Complex_Main "HOL-Library.Word"
begin

section \<open>Values of the program\<close>

text \<open>
  The program is \<^verbatim>\<open>functions/py/main.py\<close>: one HTTP entry point \<^verbatim>\<open>process_bp\<close> and
  five helpers. A Python \<^verbatim>\<open>str\<close> is modelled as the list of its code points, restricted to
  the code points 0..255 (type \<^typ>\<open>char\<close>); a numpy array of shape (H, W) as a record of
  its shape and its rows; \<^verbatim>\<open>uint8\<close> as \<^typ>\<open>8 word\<close>; a \<^verbatim>\<open>float64\<close> that is read only
  through a comparison as the real number it denotes.
\<close>

type_synonym pixel = "8 word"
type_synonym bgr = "pixel \<times> pixel \<times> pixel"
type_synonym bytes = "8 word list"

record 'p image =
  height :: nat
  width :: nat
  rows :: "'p list list"

text \<open>Exceptions are values; \<open>str_of\<close> is Python's \<^verbatim>\<open>str(e)\<close>.\<close>

datatype error =
    KeyError string
  | TypeError string
  | AttributeError string
  | ValueError string
  | IndexError string
  | CvError string
  | LibraryError string

fun str_of :: "error \<Rightarrow> string" where
  "str_of (KeyError k) = CHR 0x27 # k @ [CHR 0x27]"
| "str_of (TypeError m) = m"
| "str_of (AttributeError m) = m"
| "str_of (ValueError m) = m"
| "str_of (IndexError m) = m"
| "str_of (CvError m) = m"
| "str_of (LibraryError m) = m"

definition bindE :: "error + 'a \<Rightarrow> ('a \<Rightarrow> error + 'b) \<Rightarrow> error + 'b" where
  "bindE m f = (case m of Inl e \<Rightarrow> Inl e | Inr x \<Rightarrow> f x)"

text \<open>A list comprehension over a call that may raise: the first raise ends it.\<close>

fun mapE :: "('a \<Rightarrow> error + 'b) \<Rightarrow> 'a list \<Rightarrow> error + 'b list" where
  "mapE f [] = Inr []"
| "mapE f (x # xs) =
     (case f x of Inl e \<Rightarrow> Inl e
      | Inr y \<Rightarrow> (case mapE f xs of Inl e \<Rightarrow> Inl e | Inr ys \<Rightarrow> Inr (y # ys)))"

datatype json =
    JNull
  | JBool bool
  | JNum int
  | JStr string
  | JArr "json list"
  | JObj "(string \<times> json) list"

text \<open>The request object, reduced to what \<^verbatim>\<open>request.get_json(force=True)\<close> returns or raises.\<close>

datatype request = Request (get_json: "error + json")

section \<open>String methods\<close>

text \<open>\<^verbatim>\<open>str.isspace\<close>, \<^verbatim>\<open>str.isdigit\<close> and \<^verbatim>\<open>str.isdecimal\<close> on the code points 0..255.\<close>

definition isspace_char :: "char \<Rightarrow> bool" where
  "isspace_char c =
     (let n = (of_char c :: nat)
      in (9 \<le> n \<and> n \<le> 13) \<or> (28 \<le> n \<and> n \<le> 32) \<or> n = 133 \<or> n = 160)"

definition strip :: "string \<Rightarrow> string" where
  "strip s = rev (dropWhile isspace_char (rev (dropWhile isspace_char s)))"

definition isdecimal_char :: "char \<Rightarrow> bool" where
  "isdecimal_char c = (let n = (of_char c :: nat) in 48 \<le> n \<and> n \<le> 57)"

definition isdigit_char :: "char \<Rightarrow> bool" where
  "isdigit_char c =
     (let n = (of_char c :: nat) in (48 \<le> n \<and> n \<le> 57) \<or> n = 178 \<or> n = 179 \<or> n = 185)"

definition isdigit :: "string \<Rightarrow> bool" where
  "isdigit s = (s \<noteq> [] \<and> list_all isdigit_char s)"

definition digit_val :: "char \<Rightarrow> int" where
  "digit_val c = of_char c - 48"

text \<open>
  \<^verbatim>\<open>s.split(sep)\<close> for a one-character separator: the pieces between the separators, in
  order; never an empty list.
\<close>

fun split_str :: "char \<Rightarrow> string \<Rightarrow> string list" where
  "split_str sep [] = [[]]"
| "split_str sep (c # cs) =
     (if c = sep then [] # split_str sep cs
      else (case split_str sep cs of [] \<Rightarrow> [[c]] | w # ws \<Rightarrow> (c # w) # ws))"

text \<open>\<^verbatim>\<open>xs[-1]\<close>.\<close>

definition last_item :: "'a list \<Rightarrow> error + 'a" where
  "last_item xs = (if xs = [] then Inl (IndexError ''list index out of range'') else Inr (last xs))"

text \<open>
  \<^verbatim>\<open>int(s)\<close> for a string that passed \<^verbatim>\<open>s.isdigit()\<close>, so one made of digit characters
  only. A digit character that is not a decimal one (the superscripts) is refused with
  ValueError; so is a string longer than the interpreter's limit for integer string
  conversion when that limit (\<open>max_str_digits\<close>, 0 for none, 4300 by default since Python
  3.11) is set. Otherwise the value is accumulated from the left. The message of the
  second error is shortened: the interpreter's one also gives the two numbers.
\<close>

definition int_of_digits :: "nat \<Rightarrow> string \<Rightarrow> error + int" where
  "int_of_digits max_str_digits s =
     (if \<not> list_all isdecimal_char s then
        Inl (ValueError (''invalid literal for int() with base 10: '' @ CHR 0x27 # s @ [CHR 0x27]))
      else if 0 < max_str_digits \<and> max_str_digits < length s then
        Inl (ValueError ''Exceeds the limit for integer string conversion'')
      else Inr (foldl (\<lambda>acc c. 10 * acc + digit_val c) 0 s))"

text \<open>\<^verbatim>\<open>int(x) if x.isdigit() else None\<close> (lines 93 to 95).\<close>

definition parsed_value :: "nat \<Rightarrow> string \<Rightarrow> error + int option" where
  "parsed_value max_str_digits s =
     (if isdigit s then
        (case int_of_digits max_str_digits s of Inl e \<Rightarrow> Inl e | Inr n \<Rightarrow> Inr (Some n))
      else Inr None)"


section \<open>Arrays\<close>

text \<open>
  \<^verbatim>\<open>a[y0:y1, x0:x1]\<close> and \<^verbatim>\<open>a[y0:y1, :]\<close> for indices that are not negative: a slice is
  clipped to the array, never an error.
\<close>

definition slice2 :: "'p image \<Rightarrow> nat \<Rightarrow> nat \<Rightarrow> nat \<Rightarrow> nat \<Rightarrow> 'p image" where
  "slice2 a y0 y1 x0 x1 =
     \<lparr>height = min y1 (height a) - min y0 (height a),
      width = min x1 (width a) - min x0 (width a),
      rows = map (\<lambda>r. take (x1 - x0) (drop x0 r)) (take (y1 - y0) (drop y0 (rows a)))\<rparr>"

definition slice_rows :: "'p image \<Rightarrow> nat \<Rightarrow> nat \<Rightarrow> 'p image" where
  "slice_rows a y0 y1 =
     \<lparr>height = min y1 (height a) - min y0 (height a),
      width = width a,
      rows = take (y1 - y0) (drop y0 (rows a))\<rparr>"

definition map_image :: "('p \<Rightarrow> 'q) \<Rightarrow> 'p image \<Rightarrow> 'q image" where
  "map_image f a = \<lparr>height = height a, width = width a, rows = map (map f) (rows a)\<rparr>"

section \<open>The environment: the libraries and services the program calls\<close>

text \<open>
  The template image is read from a file that is not part of the sources, and the
  recognisers, the codecs, the clock, the storage bucket and the document database are
  outside the program. Each is a field of the environment; one that can raise returns a
  sum. The matching score and the variance are floating-point computations of OpenCV and
  are taken as given functions into the reals.
\<close>

record env =
  TEMPLATE :: "pixel image"
  b64decode :: "string \<Rightarrow> error + bytes"
  imdecode :: "bytes \<Rightarrow> error + bgr image option"
  bgr2gray :: "bgr \<Rightarrow> pixel"
  ccoeff_normed :: "pixel image \<Rightarrow> pixel image \<Rightarrow> nat \<Rightarrow> nat \<Rightarrow> real"
  laplacian_var :: "pixel image \<Rightarrow> error + real"
  image_to_string :: "pixel image \<Rightarrow> error + string"
  readtext :: "pixel image \<Rightarrow> error + string list"
  utcnow_isoformat :: string
  uuid4_hex :: string
  rectangle :: "bgr image \<Rightarrow> nat \<times> nat \<Rightarrow> nat \<times> nat \<Rightarrow> bgr image"
  colormap_jet :: "pixel \<Rightarrow> bgr"
  imencode_jpg :: "bgr image \<Rightarrow> bytes"
  upload_from_string :: "string \<Rightarrow> error option"
  public_url :: "string \<Rightarrow> string"
  document_set :: "string \<Rightarrow> error option"
  int_max_str_digits :: nat

definition ROI_W :: "env \<Rightarrow> nat" where
  "ROI_W env = width (TEMPLATE env)"

definition ROI_H :: "env \<Rightarrow> nat" where
  "ROI_H env = height (TEMPLATE env)"

definition VAR_THRESHOLD :: real where
  "VAR_THRESHOLD = 10"

section \<open>The helpers\<close>

text \<open>
  \<^verbatim>\<open>cv2.matchTemplate(img, templ, TM_CCOEFF_NORMED)\<close>. OpenCV does not refuse every image
  smaller than the template: when the image is smaller in some dimension it requires
  \<^verbatim>\<open>_img.size().height <= _templ.size().height && _img.size().width <= _templ.size().width\<close>
  (the assertion its error message quotes) and then matches with the two arguments
  exchanged. It raises only when the image is smaller in one dimension and larger in the
  other. The result has one score per placement, rows first.
\<close>

definition matchTemplate :: "env \<Rightarrow> pixel image \<Rightarrow> pixel image \<Rightarrow> error + real list list" where
  "matchTemplate env img templ =
     (let needswap = height img < height templ \<or> width img < width templ
      in if needswap \<and> \<not> (height img \<le> height templ \<and> width img \<le> width templ) then
           Inl (CvError ''(-215:Assertion failed) in function matchTemplate'')
         else
           (let i = (if needswap then templ else img);
                t = (if needswap then img else templ)
            in Inr (map (\<lambda>y. map (\<lambda>x. ccoeff_normed env i t x y) [0..<width i - width t + 1])
                        [0..<height i - height t + 1])))"

text \<open>
  \<^verbatim>\<open>cv2.minMaxLoc(res)\<close>, its fourth component: the place (x, y) of the largest score, the
  first one in row order among equals. An empty matrix is refused.
\<close>

definition cells :: "real list list \<Rightarrow> ((nat \<times> nat) \<times> real) list" where
  "cells res =
     concat (map (\<lambda>(y, row). map (\<lambda>(x, v). ((x, y), v)) (enumerate 0 row)) (enumerate 0 res))"

definition maxLoc :: "real list list \<Rightarrow> error + nat \<times> nat" where
  "maxLoc res =
     (case cells res of
        [] \<Rightarrow> Inl (CvError ''(-215:Assertion failed) in function minMaxLoc'')
      | c # cs \<Rightarrow> Inr (fst (foldl (\<lambda>b d. if snd b < snd d then d else b) c cs)))"

text \<open>\<^verbatim>\<open>find_display(gray)\<close> (lines 35 to 39).\<close>

definition find_display :: "env \<Rightarrow> pixel image \<Rightarrow> error + pixel image \<times> nat \<times> nat" where
  "find_display env gray =
     bindE (matchTemplate env gray (TEMPLATE env)) (\<lambda>res.
     bindE (maxLoc res) (\<lambda>(x, y).
       Inr (slice2 gray y (y + ROI_H env) x (x + ROI_W env), (x, y))))"

text \<open>\<^verbatim>\<open>lap_var\<close>, \<^verbatim>\<open>ocr_tess\<close> and \<^verbatim>\<open>ocr_easy\<close> (lines 32 to 46).\<close>

definition lap_var :: "env \<Rightarrow> pixel image \<Rightarrow> error + real" where
  "lap_var env gray = laplacian_var env gray"

definition ocr_tess :: "env \<Rightarrow> pixel image \<Rightarrow> error + string" where
  "ocr_tess env img = bindE (image_to_string env img) (\<lambda>t. Inr (strip t))"

definition ocr_easy :: "env \<Rightarrow> pixel image \<Rightarrow> error + string" where
  "ocr_easy env img = bindE (readtext env img) (\<lambda>ts. Inr (strip (concat ts)))"

section \<open>The stored state and the response\<close>

text \<open>
  The record written to the collection \<^verbatim>\<open>readings\<close>; the two dictionaries inside it are
  association lists in the order of the source.
\<close>

record doc =
  timestamp :: string
  glare_detected :: bool
  variance :: real
  image_url :: string
  heatmap_url :: string
  ocr_raw :: "(string \<times> string) list"
  consensus :: bool
  ocr_alternates :: "(string \<times> string list) list"
  systolic :: "int option"
  diastolic :: "int option"
  pulse :: "int option"

text \<open>What outlives an invocation: the objects of the bucket and the documents.\<close>

record store =
  bucket :: "string \<rightharpoonup> bytes"
  readings :: "string \<rightharpoonup> doc"

datatype body = is_Reading: Reading (the_doc: doc) | ErrorObj (message: string)

datatype response = Response (payload: body) (status: nat) (headers: "(string \<times> string) list")

definition json_headers :: "(string \<times> string) list" where
  "json_headers = [(''Content-Type'', ''application/json'')]"

definition error_response :: "error \<Rightarrow> response" where
  "error_response e = Response (ErrorObj (str_of e)) 500 json_headers"

section \<open>The entry point\<close>

text \<open>\<^verbatim>\<open>data["image_base64"]\<close> and the method call \<^verbatim>\<open>.split(",")\<close> on what it gives.\<close>

fun getitem :: "json \<Rightarrow> string \<Rightarrow> error + json" where
  "getitem (JObj kvs) k = (case map_of kvs k of None \<Rightarrow> Inl (KeyError k) | Some v \<Rightarrow> Inr v)"
| "getitem (JArr xs) k = Inl (TypeError ''list indices must be integers or slices, not str'')"
| "getitem (JStr s) k = Inl (TypeError ''string indices must be integers'')"
| "getitem j k = Inl (TypeError ''object is not subscriptable'')"

fun split_method :: "json \<Rightarrow> char \<Rightarrow> error + string list" where
  "split_method (JStr s) sep = Inr (split_str sep s)"
| "split_method j sep = Inl (AttributeError ''object has no attribute split'')"

text \<open>Line 52: the text handed to the base64 decoder.\<close>

definition image_payload :: "json \<Rightarrow> error + string" where
  "image_payload data =
     bindE (getitem data ''image_base64'') (\<lambda>v.
     bindE (split_method v (CHR '','')) last_item)"

text \<open>
  Lines 53 to 55. \<^verbatim>\<open>cv2.imdecode\<close> gives None for bytes that are no image, and
  \<^verbatim>\<open>cv2.cvtColor\<close> raises on None.
\<close>

definition decode_image :: "env \<Rightarrow> string \<Rightarrow> error + bgr image \<times> pixel image" where
  "decode_image env b64 =
     bindE (b64decode env b64) (\<lambda>buf.
     bindE (imdecode env buf) (\<lambda>decoded.
       case decoded of
         None \<Rightarrow> Inl (CvError ''(-215:Assertion failed) !_src.empty() in function cvtColor'')
       | Some img \<Rightarrow> Inr (img, map_image (bgr2gray env) img)))"

definition decode_request :: "env \<Rightarrow> request \<Rightarrow> error + bgr image \<times> pixel image" where
  "decode_request env request =
     bindE (get_json request) (\<lambda>data.
     bindE (image_payload data) (decode_image env))"

text \<open>Lines 62 and 63: the three bands.\<close>

definition crops_of :: "pixel image \<Rightarrow> pixel image list" where
  "crops_of display =
     (let h = height display div 3
      in map (\<lambda>i. slice_rows display (i * h) ((i + 1) * h)) [0..<3])"

text \<open>\<^verbatim>\<open>upload_blob(path, img_bgr)\<close> (lines 26 to 30).\<close>

definition upload_blob :: "env \<Rightarrow> string \<Rightarrow> bgr image \<Rightarrow> store \<Rightarrow> (error + string) \<times> store" where
  "upload_blob env path img_bgr st =
     (case upload_from_string env path of
        Some e \<Rightarrow> (Inl e, st)
      | None \<Rightarrow> (Inr (public_url env path),
                 st\<lparr>bucket := (bucket st)(path \<mapsto> imencode_jpg env img_bgr)\<rparr>))"

text \<open>\<^verbatim>\<open>round(variance, 2)\<close> on the reals: to the nearest hundredth, ties to even.\<close>

definition round_half_even :: "real \<Rightarrow> int" where
  "round_half_even r =
     (let f = \<lfloor>r\<rfloor>; d = r - of_int f
      in if d < 1 / 2 then f else if 1 / 2 < d then f + 1 else if even f then f else f + 1)"

definition round2 :: "real \<Rightarrow> real" where
  "round2 v = of_int (round_half_even (v * 100)) / 100"

text \<open>
  The body of the \<^verbatim>\<open>try\<close> (lines 51 to 98), in the order of the source, in two
  parts. The first (lines 51 to 66) touches nothing outside the invocation: it decodes,
  locates, scores and reads, and gives the local variables the second part uses.
\<close>

definition analyse ::
  "env \<Rightarrow> request \<Rightarrow>
     error + bgr image \<times> pixel image \<times> nat \<times> nat \<times> real \<times> string list \<times> string list" where
  "analyse env request =
     bindE (decode_request env request) (\<lambda>(img, gray).
     bindE (find_display env gray) (\<lambda>(display, dx, dy).
     bindE (lap_var env display) (\<lambda>var.
     bindE (mapE (ocr_tess env) (crops_of display)) (\<lambda>primary.
     bindE (mapE (ocr_easy env) (crops_of display)) (\<lambda>second.
       Inr (img, display, dx, dy, var, primary, second))))))"

definition orig_path :: "env \<Rightarrow> string" where
  "orig_path env = ''bp/'' @ uuid4_hex env @ ''_orig.jpg''"

definition heat_path :: "env \<Rightarrow> string" where
  "heat_path env = ''bp/'' @ uuid4_hex env @ ''_heat.jpg''"

text \<open>
  The second part (lines 67 to 97) uploads the two images, builds the record and writes
  it; an exception leaves with the store as it is at that moment.
\<close>

definition process_bp_try :: "env \<Rightarrow> request \<Rightarrow> store \<Rightarrow> (error + doc) \<times> store" where
  "process_bp_try env request st =
     (case analyse env request of
        Inl e \<Rightarrow> (Inl e, st)
      | Inr (img, display, dx, dy, var, primary, second) \<Rightarrow>
     (let glare = (var < VAR_THRESHOLD);
          agree = (primary = second)
      in
     (case primary of
        [sys_s, dia_s, pul_s] \<Rightarrow>
          (let ts = utcnow_isoformat env;
               uid = uuid4_hex env;
               debug_img = rectangle env img (dx, dy) (dx + ROI_W env, dy + ROI_H env)
           in
          (case upload_blob env (orig_path env) debug_img st of
             (Inl e, st1) \<Rightarrow> (Inl e, st1)
           | (Inr img_url, st1) \<Rightarrow>
          (case upload_blob env (heat_path env) (map_image (colormap_jet env) display) st1 of
             (Inl e, st2) \<Rightarrow> (Inl e, st2)
           | (Inr heat_url, st2) \<Rightarrow>
          (case parsed_value (int_max_str_digits env) sys_s of
             Inl e \<Rightarrow> (Inl e, st2)
           | Inr sys_v \<Rightarrow>
          (case parsed_value (int_max_str_digits env) dia_s of
             Inl e \<Rightarrow> (Inl e, st2)
           | Inr dia_v \<Rightarrow>
          (case parsed_value (int_max_str_digits env) pul_s of
             Inl e \<Rightarrow> (Inl e, st2)
           | Inr pul_v \<Rightarrow>
          (let d = \<lparr>timestamp = ts,
                    glare_detected = glare,
                    variance = round2 var,
                    image_url = img_url,
                    heatmap_url = heat_url,
                    ocr_raw = [(''sys'', sys_s), (''dia'', dia_s), (''pul'', pul_s)],
                    consensus = agree,
                    ocr_alternates =
                      [(''sys'', [primary ! 0, second ! 0]),
                       (''dia'', [primary ! 1, second ! 1]),
                       (''pul'', [primary ! 2, second ! 2])],
                    systolic = sys_v,
                    diastolic = dia_v,
                    pulse = pul_v\<rparr>
           in
          (case document_set env uid of
             Some e \<Rightarrow> (Inl e, st2)
           | None \<Rightarrow> (Inr d, st2\<lparr>readings := (readings st2)(uid \<mapsto> d)\<rparr>)))))))))
      | _ \<Rightarrow> (Inl (ValueError ''wrong number of values to unpack''), st))))"

text \<open>
  \<^verbatim>\<open>process_bp(request)\<close>: the \<^verbatim>\<open>try\<close> with its \<^verbatim>\<open>except Exception\<close> (lines 99 to 101).
  The body of a response is the record or the error message itself: their JSON text is
  not modelled, and \<^verbatim>\<open>json.dumps\<close> of the record is taken to succeed.
\<close>

definition process_bp :: "env \<Rightarrow> request \<Rightarrow> store \<Rightarrow> response \<times> store" where
  "process_bp env request st =
     (case process_bp_try env request st of
        (Inl e, st') \<Rightarrow> (error_response e, st')
      | (Inr d, st') \<Rightarrow> (Response (Reading d) 200 json_headers, st'))"

section \<open>A small instance\<close>

text \<open>
  A four by three photo whose lower right corner is the three by two template; the
  recognisers read 120, 80 and 72 from the three bands. The variants below change one
  collaborator each.
\<close>

definition demo_gray_rows :: "pixel list list" where
  "demo_gray_rows = [[1, 2, 3], [4, 5, 6], [7, 8, 9], [10, 11, 12]]"

definition demo_gray :: "pixel image" where
  "demo_gray = \<lparr>height = 4, width = 3, rows = demo_gray_rows\<rparr>"

definition demo_img :: "bgr image" where
  "demo_img = \<lparr>height = 4, width = 3, rows = map (map (\<lambda>v. (v, v, v))) demo_gray_rows\<rparr>"

definition demo_template :: "pixel image" where
  "demo_template = \<lparr>height = 3, width = 2, rows = [[5, 6], [8, 9], [11, 12]]\<rparr>"

definition demo_score :: "pixel image \<Rightarrow> pixel image \<Rightarrow> nat \<Rightarrow> nat \<Rightarrow> real" where
  "demo_score i t x y =
     (if rows (slice2 i y (y + height t) x (x + width t)) = rows t then 1 else 0)"

definition demo_env :: env where
  "demo_env =
     \<lparr>TEMPLATE = demo_template,
      b64decode = (\<lambda>s. if s = ''AAAA'' then Inr [0, 0, 0] else Inl (LibraryError ''Incorrect padding'')),
      imdecode = (\<lambda>b. Inr (if b = [0, 0, 0] then Some demo_img else None)),
      bgr2gray = fst,
      ccoeff_normed = demo_score,
      laplacian_var = (\<lambda>g. Inr 42),
      image_to_string =
        (\<lambda>c. Inr (if rows c = [[5, 6]] then ''120'' @ [CHR 0x0A]
                  else if rows c = [[8, 9]] then ''80'' else ''72'')),
      readtext =
        (\<lambda>c. Inr (if rows c = [[5, 6]] then [''1'', ''20'']
                  else if rows c = [[8, 9]] then [''80''] else ['' 72''])),
      utcnow_isoformat = ''2024-01-01T00:00:00'',
      uuid4_hex = ''0a1b'',
      rectangle = (\<lambda>img p q. img),
      colormap_jet = (\<lambda>v. (v, 0, v)),
      imencode_jpg = (\<lambda>img. map fst (concat (rows img))),
      upload_from_string = (\<lambda>path. None),
      public_url = (\<lambda>path. ''https://storage.googleapis.com/b/'' @ path),
      document_set = (\<lambda>uid. None),
      int_max_str_digits = 4300\<rparr>"

definition demo_request :: request where
  "demo_request = Request (Inr (JObj [(''image_base64'', JStr ''data:image/jpeg;base64,AAAA'')]))"

definition demo_store :: store where
  "demo_store = \<lparr>bucket = Map.empty, readings = Map.empty\<rparr>"

text \<open>The second recogniser raises on the middle band only.\<close>

definition demo_env_ocr_raises :: env where
  "demo_env_ocr_raises =
     demo_env\<lparr>readtext :=
       (\<lambda>c. if rows c = [[8, 9]] then Inl (LibraryError ''reader failed'') else readtext demo_env c)\<rparr>"







section \<open>Auxiliary facts\<close>

lemma bindE_simps: "bindE (Inl e) f = Inl e" "bindE (Inr x) f = f x"
  by (simp_all add: bindE_def)



lemma mapE_Inl: "mapE f xs = Inl e \<Longrightarrow> \<exists>x\<in>set xs. f x = Inl e"
  by (induction xs) (auto split: sum.splits)

lemma mapE_raises: "x \<in> set xs \<Longrightarrow> f x = Inl e \<Longrightarrow> \<exists>e'. mapE f xs = Inl e'"
  by (induction xs) (auto split: sum.splits)





lemma length_crops: "length (crops_of d) = 3"
  by (simp add: crops_of_def Let_def)







lemma fold_max_mem: "foldl (\<lambda>b d. if snd b < snd d then d else b) c cs \<in> set (c # cs)"
proof (induction cs arbitrary: c)
  case Nil
  show ?case by simp
next
  case (Cons a cs)
  have "foldl (\<lambda>b d. if snd b < snd d then d else b) (if snd c < snd a then a else c) cs
        \<in> set ((if snd c < snd a then a else c) # cs)"
    by (rule Cons.IH)
  then show ?case by (auto split: if_splits)
qed

lemma cells_bounds:
  assumes "((x, y), v) \<in> set (cells res)"
  shows "y < length res \<and> x < length (res ! y)"
proof -
  from assms have "\<exists>row. (y, row) \<in> set (enumerate 0 res) \<and> (x, v) \<in> set (enumerate 0 row)"
    by (auto simp: cells_def)
  then obtain row where r: "(y, row) \<in> set (enumerate 0 res)" and c: "(x, v) \<in> set (enumerate 0 row)"
    by blast
  from r have "y < length res" "row = res ! y" by (simp_all add: in_set_enumerate_eq)
  moreover from c have "x < length row" by (simp add: in_set_enumerate_eq)
  ultimately show ?thesis by simp
qed

lemma cells_Cons: "cells ((v # row) # res) \<noteq> []"
  by (simp add: cells_def enumerate_simps)




lemma maxLoc_grid:
  assumes "0 < m" and "0 < n"
  shows "\<exists>x y. maxLoc (map (\<lambda>y. map (\<lambda>x. f x y) [0..<n]) [0..<m]) = Inr (x, y) \<and> x < n \<and> y < m"
proof -
  let ?res = "map (\<lambda>y. map (\<lambda>x. f x y) [0..<n]) [0..<m]"
  from assms obtain m' n' where mn: "m = Suc m'" "n = Suc n'"
    by (cases m; cases n) auto
  have "?res = (f 0 0 # map (\<lambda>x. f x 0) [Suc 0..<n]) # map (\<lambda>y. map (\<lambda>x. f x y) [0..<n]) [Suc 0..<m]"
    unfolding mn by (simp only: upt_conv_Cons[of 0] zero_less_Suc list.map)
  then have ne: "cells ?res \<noteq> []"
    by (simp only: cells_Cons not_False_eq_True)
  then obtain c cs where c: "cells ?res = c # cs" by (cases "cells ?res") auto
  define b where "b = foldl (\<lambda>b d. if snd b < snd d then d else b) c cs"
  have "b \<in> set (c # cs)" unfolding b_def by (rule fold_max_mem)
  then have "((fst (fst b), snd (fst b)), snd b) \<in> set (cells ?res)"
    by (simp only: c prod.collapse)
  from cells_bounds[OF this] have "snd (fst b) < m" and "fst (fst b) < n" by auto
  moreover have "maxLoc ?res = Inr (fst (fst b), snd (fst b))"
    by (simp only: maxLoc_def c list.case b_def prod.collapse)
  ultimately show ?thesis by blast
qed


lemma upload_blob_cases:
  "upload_blob env path img st = (r, st') \<Longrightarrow>
     (\<exists>e. upload_from_string env path = Some e \<and> r = Inl e \<and> st' = st) \<or>
     (upload_from_string env path = None \<and> r = Inr (public_url env path) \<and>
      st' = st\<lparr>bucket := (bucket st)(path \<mapsto> imencode_jpg env img)\<rparr>)"
  by (auto simp: upload_blob_def split: option.splits)




lemma list3: "length xs = 3 \<Longrightarrow> xs = [xs ! 0, xs ! 1, xs ! 2]"
  by (cases xs; cases "tl xs"; cases "tl (tl xs)") auto












lemma ocr_tess_Inl: "ocr_tess env c = Inl e \<longleftrightarrow> image_to_string env c = Inl e"
  by (cases "image_to_string env c") (simp_all add: ocr_tess_def bindE_def)

lemma ocr_easy_Inl: "ocr_easy env c = Inl e \<longleftrightarrow> readtext env c = Inl e"
  by (cases "readtext env c") (simp_all add: ocr_easy_def bindE_def)

lemma mapE_Inr_all: "mapE f xs = Inr ys \<Longrightarrow> x \<in> set xs \<Longrightarrow> \<exists>y. f x = Inr y"
  by (induction xs arbitrary: ys) (auto split: sum.splits)

lemma process_bp_analyse_Inl:
  "analyse env request = Inl e \<Longrightarrow> process_bp env request st = (error_response e, st)"
  by (simp add: process_bp_def process_bp_try_def)




section \<open>The claims\<close>



text \<open>
  C7. For a grayscale image at least as large as the template in both dimensions,
  \<^verbatim>\<open>find_display\<close> returns a region of exactly the template's height and width and an
  offset (x, y) such that the region lies inside the image; the region is that part of
  the image.
\<close>

theorem find_display_template_sized:
  assumes "height (TEMPLATE env) \<le> height gray" and "width (TEMPLATE env) \<le> width gray"
  shows "\<exists>d x y. find_display env gray = Inr (d, x, y) \<and>
           height d = height (TEMPLATE env) \<and> width d = width (TEMPLATE env) \<and>
           x + width (TEMPLATE env) \<le> width gray \<and> y + height (TEMPLATE env) \<le> height gray \<and>
           rows d = map (\<lambda>r. take (width (TEMPLATE env)) (drop x r))
                      (take (height (TEMPLATE env)) (drop y (rows gray)))"
proof -
  let ?t = "TEMPLATE env"
  let ?m = "height gray - height ?t + 1" and ?n = "width gray - width ?t + 1"
  have mt: "matchTemplate env gray ?t =
      Inr (map (\<lambda>y. map (\<lambda>x. ccoeff_normed env gray ?t x y) [0..<?n]) [0..<?m])"
    using assms by (simp add: matchTemplate_def Let_def)
  obtain x y where xy: "maxLoc (map (\<lambda>y. map (\<lambda>x. ccoeff_normed env gray ?t x y) [0..<?n]) [0..<?m]) = Inr (x, y)"
    and x: "x < ?n" and y: "y < ?m"
    using maxLoc_grid[of ?m ?n "ccoeff_normed env gray ?t"] by auto
  have fd: "find_display env gray = Inr (slice2 gray y (y + ROI_H env) x (x + ROI_W env), x, y)"
    by (simp only: find_display_def mt xy bindE_simps prod.case)
  from x y assms have "x + width ?t \<le> width gray" "y + height ?t \<le> height gray" by auto
  then show ?thesis
    unfolding fd by (simp add: slice2_def ROI_H_def ROI_W_def)
qed

theorem find_display_template_sized_witness:
  "height (TEMPLATE demo_env) \<le> height demo_gray \<and> width (TEMPLATE demo_env) \<le> width demo_gray \<and>
   (\<exists>d x y. find_display demo_env demo_gray = Inr (d, x, y) \<and>
      height d = height (TEMPLATE demo_env) \<and> width d = width (TEMPLATE demo_env) \<and>
      x + width (TEMPLATE demo_env) \<le> width demo_gray \<and>
      y + height (TEMPLATE demo_env) \<le> height demo_gray)"
proof -
  have h: "height (TEMPLATE demo_env) \<le> height demo_gray"
    by (simp add: demo_env_def demo_template_def demo_gray_def)
  have w: "width (TEMPLATE demo_env) \<le> width demo_gray"
    by (simp add: demo_env_def demo_template_def demo_gray_def)
  from find_display_template_sized [OF h w] h w show ?thesis
    by blast
qed












text \<open>
  C1, as the program has it. No call of a recogniser is guarded: when the request
  decodes, the display is located and scored, and a call of either recogniser on one of
  the three bands raises, the invocation ends with the error response carrying the
  message of a recogniser's exception, no reading is returned and the store is
  unchanged.
\<close>

theorem recognition_failure_is_error_response:
  assumes "decode_request env request = Inr (img, gray)"
    and "find_display env gray = Inr (display, off)"
    and "lap_var env display = Inr v"
    and "\<exists>c\<in>set (crops_of display).
           (\<exists>e. image_to_string env c = Inl e) \<or> (\<exists>e. readtext env c = Inl e)"
  shows "\<exists>e. (\<exists>c\<in>set (crops_of display). image_to_string env c = Inl e \<or> readtext env c = Inl e) \<and>
             process_bp env request st = (error_response e, st)"
proof -
  obtain dx dy where off: "off = (dx, dy)" by (cases off)
  have a: "analyse env request =
      bindE (mapE (ocr_tess env) (crops_of display)) (\<lambda>primary.
      bindE (mapE (ocr_easy env) (crops_of display)) (\<lambda>second.
        Inr (img, display, dx, dy, v, primary, second)))"
    using assms(1-3) by (simp add: analyse_def bindE_simps off)
  show ?thesis
  proof (cases "mapE (ocr_tess env) (crops_of display)")
    case (Inl e)
    from mapE_Inl[OF Inl] obtain c where "c \<in> set (crops_of display)" "image_to_string env c = Inl e"
      by (auto simp: ocr_tess_Inl)
    moreover have "analyse env request = Inl e" by (simp add: a Inl bindE_simps)
    ultimately show ?thesis using process_bp_analyse_Inl by blast
  next
    case (Inr primary)
    from assms(4) obtain c where c: "c \<in> set (crops_of display)"
      and f: "(\<exists>e. image_to_string env c = Inl e) \<or> (\<exists>e. readtext env c = Inl e)" by blast
    from mapE_Inr_all[OF Inr c] have "\<not> (\<exists>e. image_to_string env c = Inl e)"
      by (auto simp: ocr_tess_Inl[symmetric])
    with f obtain e0 where e0: "ocr_easy env c = Inl e0" by (auto simp: ocr_easy_Inl)
    from mapE_raises[of c "crops_of display" "ocr_easy env" e0, OF c e0]
    obtain e where e: "mapE (ocr_easy env) (crops_of display) = Inl e"
      by blast
    from mapE_Inl[OF e] obtain c' where "c' \<in> set (crops_of display)" "readtext env c' = Inl e"
      by (auto simp: ocr_easy_Inl)
    moreover have "analyse env request = Inl e" by (simp add: a Inr e bindE_simps)
    ultimately show ?thesis using process_bp_analyse_Inl by blast
  qed
qed

theorem recognition_failure_is_error_response_witness:
  "decode_request demo_env_ocr_raises demo_request = Inr (demo_img, demo_gray) \<and>
   find_display demo_env_ocr_raises demo_gray = Inr (demo_template, 1, 1) \<and>
   lap_var demo_env_ocr_raises demo_template = Inr 42 \<and>
   readtext demo_env_ocr_raises (crops_of demo_template ! 1) = Inl (LibraryError ''reader failed'') \<and>
   (\<exists>e. (\<exists>c\<in>set (crops_of demo_template).
            image_to_string demo_env_ocr_raises c = Inl e \<or> readtext demo_env_ocr_raises c = Inl e) \<and>
        process_bp demo_env_ocr_raises demo_request demo_store = (error_response e, demo_store))"
proof -
  have h1: "decode_request demo_env_ocr_raises demo_request = Inr (demo_img, demo_gray)"
    by code_simp
  have h2: "find_display demo_env_ocr_raises demo_gray = Inr (demo_template, 1, 1)"
    by code_simp
  have h3: "lap_var demo_env_ocr_raises demo_template = Inr 42"
    by code_simp
  have r: "readtext demo_env_ocr_raises (crops_of demo_template ! 1) = Inl (LibraryError ''reader failed'')"
    by code_simp
  have "crops_of demo_template ! 1 \<in> set (crops_of demo_template)"
    by (simp add: length_crops)
  with r have h4: "\<exists>c\<in>set (crops_of demo_template).
           (\<exists>e. image_to_string demo_env_ocr_raises c = Inl e) \<or>
           (\<exists>e. readtext demo_env_ocr_raises c = Inl e)"
    by blast
  from recognition_failure_is_error_response [OF h1 h2 h3 h4, of demo_store] h1 h2 h3 r
  show ?thesis by blast
qed

text \<open>
  C1 as stated promises an empty string and a complete reading. With the second
  recogniser raising on the middle band only, the caller gets the error object.
\<close>

theorem recognition_failure_counterexample:
  "find_display demo_env_ocr_raises demo_gray = Inr (demo_template, 1, 1) \<and>
   map (image_to_string demo_env_ocr_raises) (crops_of demo_template) =
     [Inr (''120'' @ [CHR 0x0A]), Inr ''80'', Inr ''72''] \<and>
   map (readtext demo_env_ocr_raises) (crops_of demo_template) =
     [Inr [''1'', ''20''], Inl (LibraryError ''reader failed''), Inr ['' 72'']] \<and>
   fst (process_bp demo_env_ocr_raises demo_request demo_store) =
     Response (ErrorObj ''reader failed'') 500 json_headers"
  by code_simp







end
